theory Spec2Isabelle
  imports Complex_Main "HOL-Library.Sublist"
begin

section \<open>The status and metrics service of \<^verbatim>\<open>src/app/src/server.js\<close>\<close>

text \<open>
  The service is one Express 4 application. Its behaviour is fixed by the order in which
  \<^verbatim>\<open>server.js\<close> registers middleware and routes, so the model keeps that order: the
  application is a list of layers, and a request walks the list the way Express' router
  does. What the libraries and the runtime decide from data the file never sees (the
  clocks, the body parsers' verdict on a body, the count in the rate limiter's store,
  whether a conditional request is fresh) is an input of the model.
\<close>

subsection \<open>Values\<close>

datatype http_method = GET | HEAD | POST | PUT | DELETE | PATCH | OPTIONS

text \<open>An error object: \<^verbatim>\<open>err.message\<close> and \<^verbatim>\<open>err.status\<close>.\<close>

datatype js_error = Error (message: string) (errStatus: "nat option")

text \<open>
  A JSON value as passed to \<^verbatim>\<open>res.json\<close>. \<open>JDate t\<close> stands for the string
  \<^verbatim>\<open>new Date(t).toISOString()\<close>; object fields keep the order of the source literal.
\<close>

datatype json =
    JStr string
  | JNum rat
  | JDate int
  | JArr "json list"
  | JObj "(string \<times> json) list"

text \<open>
  A response body: JSON, plain text, the HTML page Express writes when no handler
  answered, or nothing.
\<close>

datatype payload = Json json | Text string | ErrorPage | Empty

text \<open>
  A response as sent. Of the headers it carries the three numeric
  \<^verbatim>\<open>RateLimit-*\<close> headers of the rate limiter; the headers of \<^verbatim>\<open>helmet\<close> and
  \<^verbatim>\<open>cors\<close>, the content headers of \<^verbatim>\<open>res.json\<close>, and the limiter's
  \<^verbatim>\<open>Retry-After\<close> and \<^verbatim>\<open>RateLimit-Policy\<close> are not modelled.
\<close>

record response =
  status :: nat
  body :: payload
  headers :: "(string \<times> nat) list"

fun field :: "string \<Rightarrow> payload \<Rightarrow> json option" where
  "field k (Json (JObj kvs)) = map_of kvs k"
| "field k _ = None"

text \<open>
  One inbound request, with what the environment decides about it:
  \<^item> \<open>pathname\<close> is \<^verbatim>\<open>req.path\<close>, which the router matches; \<open>originalUrl\<close> is
    \<^verbatim>\<open>req.originalUrl\<close>, the request target as the client sent it; Express derives the
    first from the second;
  \<^item> \<open>uriError\<close>: \<^verbatim>\<open>decodeURIComponent\<close> throws on the path (a stray \<^verbatim>\<open>%\<close>);
  \<^item> \<open>cacheFresh\<close>: the request carries cache validators
    (\<^verbatim>\<open>If-None-Match\<close>, \<^verbatim>\<open>If-Modified-Since\<close>) that the response about to be sent
    satisfies, so that \<^verbatim>\<open>req.fresh\<close> holds for a GET or HEAD answered 2xx;
  \<^item> \<open>totalHits\<close> is the count the rate limiter's store returns for the request's
    address: its requests in the current window, this one included; \<open>resetSeconds\<close> is
    the time to the end of that window; how the store opens and closes windows is the
    library's business;
  \<^item> \<open>jsonFault\<close> and \<open>formFault\<close> are the errors that \<^verbatim>\<open>express.json\<close> and
    \<^verbatim>\<open>express.urlencoded\<close> raise on the request's body (\<open>None\<close>: the parser passes
    the request on);
  \<^item> \<open>dateNow\<close> is \<^verbatim>\<open>Date.now()\<close> while the request is handled (every
    \<^verbatim>\<open>new Date()\<close> of one request reads this value), \<open>finishedAt\<close> is
    \<^verbatim>\<open>Date.now()\<close> when the response emits \<^verbatim>\<open>finish\<close>;
  \<^item> \<open>elapsed\<close> is the time on the process' monotonic clock, in milliseconds, between
    the previous request handled (or process start) and this one.
\<close>

record request =
  req_method :: http_method
  pathname :: string
  originalUrl :: string
  uriError :: bool
  ip :: string
  userAgent :: "string option"
  cacheFresh :: bool
  totalHits :: nat
  resetSeconds :: nat
  jsonFault :: "js_error option"
  formFault :: "js_error option"
  dateNow :: int
  finishedAt :: int
  elapsed :: nat

datatype log_entry =
    LogInfo string
  | LogInfoMeta string string "string option"
  | LogError string js_error
  | LogAccess string http_method string nat

text \<open>Listeners registered on the current response's \<^verbatim>\<open>finish\<close> event.\<close>

datatype listener = MorganLine | RecordDuration int

datatype signal = SIGTERM | SIGINT

subsection \<open>Process state\<close>

text \<open>
  \<open>requestCount\<close> and \<open>avgResponseTime\<close> are the two properties of \<^verbatim>\<open>app.locals\<close>
  (\<open>None\<close>: the property was never assigned). \<open>uptimeMs\<close> is the monotonic time since
  process start that \<^verbatim>\<open>process.uptime()\<close> reports in seconds, \<open>logged\<close> what went to
  the winston logger. \<open>onFinish\<close> and \<open>resHeaders\<close> belong to the response under
  construction. The remaining fields are the HTTP server and the process: whether the
  server still accepts connections, the number of \<^verbatim>\<open>close\<close> callbacks registered by
  the signal handlers, the open connections (each idle, \<open>None\<close>, or with a request
  waiting for its response), the responses delivered, the connections turned away, and
  the exit code once \<^verbatim>\<open>process.exit\<close> ran.
\<close>

record server_state =
  NODE_ENV :: "string option"
  npm_package_version :: "string option"
  PORT :: "string option"
  requestCount :: "nat option"
  avgResponseTime :: "rat option"
  uptimeMs :: nat
  logged :: "log_entry list"
  onFinish :: "listener list"
  resHeaders :: "(string \<times> nat) list"
  listening :: bool
  closeCallbacks :: nat
  conns :: "request option list"
  delivered :: "response list"
  refused :: nat
  exitCode :: "nat option"

subsection \<open>JavaScript's \<^verbatim>\<open>||\<close> on optional values\<close>

text \<open>\<^verbatim>\<open>x || d\<close> yields \<open>d\<close> when \<open>x\<close> is undefined, the empty string or the number 0.\<close>

definition or_str :: "string option \<Rightarrow> string \<Rightarrow> string" where
  "or_str x d = (case x of None \<Rightarrow> d | Some v \<Rightarrow> if v = [] then d else v)"

definition or_nat :: "nat option \<Rightarrow> nat \<Rightarrow> nat" where
  "or_nat x d = (case x of None \<Rightarrow> d | Some n \<Rightarrow> if n = 0 then d else n)"

definition or_rat :: "rat option \<Rightarrow> rat \<Rightarrow> rat" where
  "or_rat x d = (case x of None \<Rightarrow> d | Some q \<Rightarrow> if q = 0 then d else q)"

subsection \<open>Sending a response\<close>

text \<open>
  \<^verbatim>\<open>res.status(code).send(body)\<close>, which \<^verbatim>\<open>res.json\<close> ends in: a GET or HEAD that
  is fresh and would be answered 2xx is answered 304 instead; a 204, a 304 and every
  answer to a HEAD go out without a body. The headers are those set on the response so
  far.
\<close>

definition send :: "request \<Rightarrow> (string \<times> nat) list \<Rightarrow> nat \<Rightarrow> payload \<Rightarrow> response" where
  "send r hs code b =
     (let code' =
            (if (req_method r = GET \<or> req_method r = HEAD) \<and> 200 \<le> code \<and> code < 300
                \<and> cacheFresh r
             then 304 else code)
      in \<lparr>status = code',
          body = (if code' = 204 \<or> code' = 304 \<or> req_method r = HEAD then Empty else b),
          headers = hs\<rparr>)"

subsection \<open>The router\<close>

datatype outcome =
    Next server_state
  | Throw js_error server_state
  | Done response server_state

datatype matching = Matched | NoMatch | MatchError js_error

text \<open>
  A layer is what \<^verbatim>\<open>app.use\<close> or \<^verbatim>\<open>app.get\<close> pushes on the stack: a name (for the
  trace of visited layers), the test that selects requests, and the handler. A handler of
  four arguments is an error handler.
\<close>

datatype layer =
    Use string "request \<Rightarrow> matching" "request \<Rightarrow> server_state \<Rightarrow> outcome"
  | UseError string "js_error \<Rightarrow> request \<Rightarrow> server_state \<Rightarrow> outcome"

fun layer_name :: "layer \<Rightarrow> string" where
  "layer_name (Use n m h) = n"
| "layer_name (UseError n h) = n"

datatype walk_result =
    Finished response server_state "string list"
  | Exhausted "js_error option" server_state "string list"

text \<open>
  Express' \<^verbatim>\<open>next\<close>: without a pending error the error handlers are skipped, with one
  only error handlers run. A layer whose path test throws leaves its error pending for
  the layers behind it. The trace collects the names of the layers whose handler ran.
\<close>

fun walk :: "layer list \<Rightarrow> js_error option \<Rightarrow> request \<Rightarrow> server_state \<Rightarrow> string list \<Rightarrow> walk_result" where
  "walk [] e r s tr = Exhausted e s tr"
| "walk (Use n m h # ls) None r s tr =
     (case m r of
        NoMatch \<Rightarrow> walk ls None r s tr
      | MatchError e \<Rightarrow> walk ls (Some e) r s tr
      | Matched \<Rightarrow>
          (case h r s of
             Next s' \<Rightarrow> walk ls None r s' (tr @ [n])
           | Throw e s' \<Rightarrow> walk ls (Some e) r s' (tr @ [n])
           | Done resp s' \<Rightarrow> Finished resp s' (tr @ [n])))"
| "walk (Use n m h # ls) (Some e) r s tr = walk ls (Some e) r s tr"
| "walk (UseError n h # ls) None r s tr = walk ls None r s tr"
| "walk (UseError n h # ls) (Some e) r s tr =
     (case h e r s of
        Next s' \<Rightarrow> walk ls None r s' (tr @ [n])
      | Throw e' s' \<Rightarrow> walk ls (Some e') r s' (tr @ [n])
      | Done resp s' \<Rightarrow> Finished resp s' (tr @ [n]))"

text \<open>
  Route paths: Express 4 compares case-insensitively and accepts one trailing slash.
  \<^verbatim>\<open>app.get\<close> also answers HEAD. \<^verbatim>\<open>app.use\<close> without a path takes every request;
  \<^verbatim>\<open>app.use('*', ...)\<close> takes every request too, but decodes the path as a parameter
  first, and a path that does not decode raises a \<^verbatim>\<open>URIError\<close> of status 400.
\<close>

definition lower :: "char \<Rightarrow> char" where
  "lower c =
     (case map_of (zip ''ABCDEFGHIJKLMNOPQRSTUVWXYZ'' ''abcdefghijklmnopqrstuvwxyz'') c of
        None \<Rightarrow> c
      | Some d \<Rightarrow> d)"

definition path_matches :: "string \<Rightarrow> string \<Rightarrow> bool" where
  "path_matches route p =
     (let q = map lower p in
      if route = ''/'' then q = ''/'' \<or> q = [] else q = route \<or> q = route @ ''/'')"

definition get_route :: "string \<Rightarrow> request \<Rightarrow> bool" where
  "get_route route r = ((req_method r = GET \<or> req_method r = HEAD) \<and> path_matches route (pathname r))"

definition route :: "string \<Rightarrow> request \<Rightarrow> matching" where
  "route p r = (if get_route p r then Matched else NoMatch)"

definition always :: "request \<Rightarrow> matching" where
  "always r = Matched"

definition star :: "request \<Rightarrow> matching" where
  "star r =
     (if uriError r
      then MatchError (Error (''Failed to decode param '' @ [CHR 0x27] @ pathname r @ [CHR 0x27]) (Some 400))
      else Matched)"

subsection \<open>Middleware registered before the routes\<close>

text \<open>\<^verbatim>\<open>helmet()\<close> only sets response headers that the model does not carry.\<close>

definition helmet :: "request \<Rightarrow> server_state \<Rightarrow> outcome" where
  "helmet r s = Next s"

text \<open>
  \<^verbatim>\<open>cors(...)\<close> with its defaults answers every OPTIONS request itself (status 204, no
  body) and passes every other request on.
\<close>

definition cors :: "request \<Rightarrow> server_state \<Rightarrow> outcome" where
  "cors r s =
     (if req_method r = OPTIONS
      then Done \<lparr>status = 204, body = Empty, headers = resHeaders s\<rparr> s
      else Next s)"

text \<open>
  \<^verbatim>\<open>rateLimit({windowMs: 15 * 60 * 1000, max: 100, message: ..., standardHeaders: true,
  legacyHeaders: false})\<close>: the middleware asks its store for the address' count, sets
  the \<^verbatim>\<open>RateLimit-*\<close> headers from it, and answers the request itself, 429 with the
  message, when the count is above \<open>max\<close>.
\<close>

definition max_requests :: nat where
  "max_requests = 100"

definition limit_message :: string where
  "limit_message = ''Too many requests from this IP, please try again later.''"

definition rate_limit_headers :: "request \<Rightarrow> (string \<times> nat) list" where
  "rate_limit_headers r =
     [(''RateLimit-Limit'', max_requests),
      (''RateLimit-Remaining'', max_requests - totalHits r),
      (''RateLimit-Reset'', resetSeconds r)]"

definition limiter :: "request \<Rightarrow> server_state \<Rightarrow> outcome" where
  "limiter r s =
     (let s' = s\<lparr>resHeaders := resHeaders s @ rate_limit_headers r\<rparr>
      in if totalHits r > max_requests
         then Done (send r (resHeaders s') 429 (Text limit_message)) s'
         else Next s')"

text \<open>\<^verbatim>\<open>morgan('combined', ...)\<close> writes its access line when the response finishes.\<close>

definition morgan :: "request \<Rightarrow> server_state \<Rightarrow> outcome" where
  "morgan r s = Next (s\<lparr>onFinish := onFinish s @ [MorganLine]\<rparr>)"

definition express_json :: "request \<Rightarrow> server_state \<Rightarrow> outcome" where
  "express_json r s = (case jsonFault r of None \<Rightarrow> Next s | Some e \<Rightarrow> Throw e s)"

definition express_urlencoded :: "request \<Rightarrow> server_state \<Rightarrow> outcome" where
  "express_urlencoded r s = (case formFault r of None \<Rightarrow> Next s | Some e \<Rightarrow> Throw e s)"

subsection \<open>Routes\<close>

definition technologies :: "json list" where
  "technologies =
     [JStr ''Node.js'', JStr ''Express'', JStr ''Docker'', JStr ''Kubernetes'',
      JStr ''Jenkins'', JStr ''GitHub Actions'', JStr ''Terraform'', JStr ''Ansible'',
      JStr ''SonarQube'', JStr ''Trivy'', JStr ''Prometheus'', JStr ''Grafana'']"

text \<open>The welcome message ends in a rocket emoji, written here as its UTF-8 bytes.\<close>

definition root_route :: "request \<Rightarrow> server_state \<Rightarrow> outcome" where
  "root_route r s = Done (send r (resHeaders s) 200 (Json (JObj
     [(''message'', JStr (''Welcome to DevOps CI/CD Pipeline Application! ''
          @ [char_of (240::nat), char_of (159::nat), char_of (154::nat), char_of (128::nat)])),
      (''status'', JStr ''success''),
      (''timestamp'', JDate (dateNow r)),
      (''description'', JStr ''A comprehensive CI/CD pipeline demonstrating DevOps and DevSecOps practices''),
      (''availableEndpoints'', JObj
         [(''root'', JStr ''GET / - This welcome page''),
          (''health'', JStr ''GET /health - Health check and status''),
          (''metrics'', JStr ''GET /metrics - Prometheus metrics''),
          (''status'', JStr ''GET /api/v1/status - Application status and features''),
          (''info'', JStr ''GET /api/v1/info - Application information and technologies'')]),
      (''quickStart'', JObj
         [(''healthCheck'', JStr ''http://localhost:3000/health''),
          (''apiStatus'', JStr ''http://localhost:3000/api/v1/status''),
          (''documentation'', JStr ''Check the README.md for full setup instructions'')]),
      (''technologies'', JArr technologies)]))) s"

definition health :: "request \<Rightarrow> server_state \<Rightarrow> json" where
  "health r s = JObj
     [(''status'', JStr ''healthy''),
      (''timestamp'', JDate (dateNow r)),
      (''uptime'', JNum (of_nat (uptimeMs s) / 1000)),
      (''environment'', JStr (or_str (NODE_ENV s) ''development'')),
      (''version'', JStr (or_str (npm_package_version s) ''1.0.0''))]"

definition health_route :: "request \<Rightarrow> server_state \<Rightarrow> outcome" where
  "health_route r s = Done (send r (resHeaders s) 200 (Json (health r s))) s"

definition metrics :: "request \<Rightarrow> server_state \<Rightarrow> json" where
  "metrics r s = JObj
     [(''http_requests_total'', JObj
         [(''total'', JNum (of_nat (or_nat (requestCount s) 0))),
          (''timestamp'', JDate (dateNow r))]),
      (''http_request_duration_seconds'', JObj
         [(''average'', JNum (or_rat (avgResponseTime s) 0)),
          (''timestamp'', JDate (dateNow r))])]"

definition metrics_route :: "request \<Rightarrow> server_state \<Rightarrow> outcome" where
  "metrics_route r s = Done (send r (resHeaders s) 200 (Json (metrics r s))) s"

definition status_route :: "request \<Rightarrow> server_state \<Rightarrow> outcome" where
  "status_route r s = Done (send r (resHeaders s) 200 (Json (JObj
     [(''message'', JStr ''DevOps CI/CD Pipeline Application is running!''),
      (''status'', JStr ''success''),
      (''timestamp'', JDate (dateNow r)),
      (''features'', JArr
         [JStr ''Security scanning with SonarQube'',
          JStr ''Container scanning with Trivy'',
          JStr ''Dependency scanning with OWASP'',
          JStr ''Secrets detection with Gitleaks'',
          JStr ''Monitoring with Prometheus & Grafana'',
          JStr ''Deployment to Kubernetes''])])))
     (s\<lparr>logged := logged s @ [LogInfoMeta ''Status endpoint accessed'' (ip r) (userAgent r)]\<rparr>)"

definition info :: json where
  "info = JObj
     [(''application'', JStr ''DevOps CI/CD Pipeline Demo''),
      (''version'', JStr ''1.0.0''),
      (''description'', JStr ''A comprehensive CI/CD pipeline demonstrating DevOps and DevSecOps practices''),
      (''technologies'', JArr technologies),
      (''endpoints'', JArr
         [JStr ''GET /health - Health check'',
          JStr ''GET /metrics - Prometheus metrics'',
          JStr ''GET /api/v1/status - Application status'',
          JStr ''GET /api/v1/info - Application information''])]"

definition info_route :: "request \<Rightarrow> server_state \<Rightarrow> outcome" where
  "info_route r s = Done (send r (resHeaders s) 200 (Json info)) s"

subsection \<open>Handlers registered after the routes\<close>

definition error_handler :: "js_error \<Rightarrow> request \<Rightarrow> server_state \<Rightarrow> outcome" where
  "error_handler err r s = Done (send r (resHeaders s) 500 (Json (JObj
     [(''error'', JStr ''Internal Server Error''),
      (''message'', JStr (if NODE_ENV s = Some ''development'' then message err
                          else ''Something went wrong'')),
      (''timestamp'', JDate (dateNow r))])))
     (s\<lparr>logged := logged s @ [LogError ''Unhandled error:'' err]\<rparr>)"

definition not_found :: "request \<Rightarrow> server_state \<Rightarrow> outcome" where
  "not_found r s = Done (send r (resHeaders s) 404 (Json (JObj
     [(''error'', JStr ''Not Found''),
      (''message'', JStr (''Route '' @ originalUrl r @ '' not found'')),
      (''timestamp'', JDate (dateNow r))]))) s"

definition request_counting :: "request \<Rightarrow> server_state \<Rightarrow> outcome" where
  "request_counting r s = Next (s\<lparr>requestCount := Some (or_nat (requestCount s) 0 + 1)\<rparr>)"

definition response_time :: "request \<Rightarrow> server_state \<Rightarrow> outcome" where
  "response_time r s = Next (s\<lparr>onFinish := onFinish s @ [RecordDuration (dateNow r)]\<rparr>)"

text \<open>The body of the \<^verbatim>\<open>finish\<close> listener of the response-time middleware.\<close>

definition totalRequests :: "server_state \<Rightarrow> nat" where
  "totalRequests s = or_nat (requestCount s) 1"

definition record_duration :: "int \<Rightarrow> request \<Rightarrow> server_state \<Rightarrow> server_state" where
  "record_duration start r s =
     (let duration = finishedAt r - start;
          avgTime = or_rat (avgResponseTime s) 0
      in s\<lparr>avgResponseTime :=
           Some ((avgTime * (of_nat (totalRequests s) - 1) + of_int duration)
                 / of_nat (totalRequests s))\<rparr>)"

subsection \<open>The application\<close>

definition app :: "layer list" where
  "app =
     [Use ''helmet'' always helmet,
      Use ''cors'' always cors,
      Use ''limiter'' always limiter,
      Use ''morgan'' always morgan,
      Use ''express.json'' always express_json,
      Use ''express.urlencoded'' always express_urlencoded,
      Use ''GET /'' (route ''/'') root_route,
      Use ''GET /health'' (route ''/health'') health_route,
      Use ''GET /metrics'' (route ''/metrics'') metrics_route,
      Use ''GET /api/v1/status'' (route ''/api/v1/status'') status_route,
      Use ''GET /api/v1/info'' (route ''/api/v1/info'') info_route,
      UseError ''error handler'' error_handler,
      Use ''*'' star not_found,
      Use ''request counting'' always request_counting,
      Use ''response time'' always response_time]"

text \<open>
  The core of the service: the application without the rate-limiting policy that
  \<^verbatim>\<open>server.js\<close> puts in front of it.
\<close>

definition core :: "layer list" where
  "core = filter (\<lambda>l. layer_name l \<noteq> ''limiter'') app"

text \<open>
  What Express answers when the stack is exhausted: 404, or with a pending error the
  error's own status when that is an error status, else 500; the body is Express' HTML
  page.
\<close>

definition finalhandler :: "js_error option \<Rightarrow> request \<Rightarrow> server_state \<Rightarrow> response" where
  "finalhandler e r s =
     \<lparr>status =
        (case e of
           None \<Rightarrow> 404
         | Some err \<Rightarrow>
             (case errStatus err of
                None \<Rightarrow> 500
              | Some c \<Rightarrow> if 400 \<le> c \<and> c < 600 then c else 500)),
      body = (if req_method r = HEAD then Empty else ErrorPage),
      headers = resHeaders s\<rparr>"

fun run_listener :: "request \<Rightarrow> response \<Rightarrow> listener \<Rightarrow> server_state \<Rightarrow> server_state" where
  "run_listener r resp MorganLine s =
     s\<lparr>logged := logged s @ [LogAccess (ip r) (req_method r) (originalUrl r) (status resp)]\<rparr>"
| "run_listener r resp (RecordDuration start) s = record_duration start r s"

definition finish :: "request \<Rightarrow> response \<Rightarrow> server_state \<Rightarrow> server_state" where
  "finish r resp s = (fold (run_listener r resp) (onFinish s) s)\<lparr>onFinish := [], resHeaders := []\<rparr>"

text \<open>
  One request through a stack of layers: the monotonic clock has advanced, the response
  starts without listeners and headers; the result is the response, the state afterwards
  and the names of the layers that ran.
\<close>

definition handle_on :: "layer list \<Rightarrow> request \<Rightarrow> server_state \<Rightarrow> response \<times> server_state \<times> string list" where
  "handle_on stack r s =
     (case walk stack None r
             (s\<lparr>uptimeMs := uptimeMs s + elapsed r, onFinish := [], resHeaders := []\<rparr>) [] of
        Finished resp s' tr \<Rightarrow> (resp, finish r resp s', tr)
      | Exhausted e s' tr \<Rightarrow> (finalhandler e r s', finish r (finalhandler e r s') s', tr))"

definition handle :: "request \<Rightarrow> server_state \<Rightarrow> response \<times> server_state \<times> string list" where
  "handle r s = handle_on app r s"

definition respond :: "request \<Rightarrow> server_state \<Rightarrow> response" where
  "respond r s = fst (handle r s)"

definition after :: "request \<Rightarrow> server_state \<Rightarrow> server_state" where
  "after r s = fst (snd (handle r s))"

definition visited :: "request \<Rightarrow> server_state \<Rightarrow> string list" where
  "visited r s = snd (snd (handle r s))"

definition respond_core :: "request \<Rightarrow> server_state \<Rightarrow> response" where
  "respond_core r s = fst (handle_on core r s)"

text \<open>Sequential requests, each answered before the next arrives.\<close>

fun serve :: "request list \<Rightarrow> server_state \<Rightarrow> server_state" where
  "serve [] s = s"
| "serve (r # rs) s = serve rs (after r s)"

subsection \<open>Start-up, termination signals and the event loop\<close>

text \<open>
  The state once the module is loaded and \<^verbatim>\<open>app.listen(PORT, ...)\<close> has bound the port
  and run its callback; the port is \<^verbatim>\<open>process.env.PORT || 3000\<close>. The clock stands at
  process start: the time the start-up took is part of the first request's \<open>elapsed\<close>.
\<close>

definition boot :: "string option \<Rightarrow> string option \<Rightarrow> string option \<Rightarrow> server_state" where
  "boot node_env version port =
     \<lparr>NODE_ENV = node_env, npm_package_version = version, PORT = port,
      requestCount = None, avgResponseTime = None, uptimeMs = 0,
      logged =
        [LogInfo (''Server running on port '' @ or_str port ''3000''),
         LogInfo (''Environment: '' @ or_str node_env ''development''),
         LogInfo (''Health check: http://localhost:'' @ or_str port ''3000'' @ ''/health''),
         LogInfo (''Metrics: http://localhost:'' @ or_str port ''3000'' @ ''/metrics'')],
      onFinish = [], resHeaders = [], listening = True, closeCallbacks = 0, conns = [],
      delivered = [], refused = 0, exitCode = None\<rparr>"

definition process_exit :: "nat \<Rightarrow> server_state \<Rightarrow> server_state" where
  "process_exit code s = s\<lparr>exitCode := Some code\<rparr>"

text \<open>The callback both signal handlers pass to \<^verbatim>\<open>server.close\<close>.\<close>

definition close_callback :: "server_state \<Rightarrow> server_state" where
  "close_callback s = process_exit 0 (s\<lparr>logged := logged s @ [LogInfo ''Process terminated'']\<rparr>)"

text \<open>
  Node's \<^verbatim>\<open>server.close(cb)\<close>, as in the Node 18 the repository's documents name for
  its image: it registers \<open>cb\<close> for the server's \<^verbatim>\<open>close\<close> event and stops listening;
  connections that are open stay open. The event is emitted once the server no longer
  listens and no connection is open, also when the last open connection ends later.
\<close>

definition emitCloseIfDrained :: "server_state \<Rightarrow> server_state" where
  "emitCloseIfDrained s =
     (if listening s \<or> conns s \<noteq> [] then s
      else if closeCallbacks s > 0 then close_callback s
      else s)"

definition server_close :: "server_state \<Rightarrow> server_state" where
  "server_close s =
     emitCloseIfDrained (s\<lparr>closeCallbacks := closeCallbacks s + 1, listening := False\<rparr>)"

fun signal_name :: "signal \<Rightarrow> string" where
  "signal_name SIGTERM = ''SIGTERM''"
| "signal_name SIGINT = ''SIGINT''"

definition on_signal :: "signal \<Rightarrow> server_state \<Rightarrow> server_state" where
  "on_signal sg s =
     server_close
       (s\<lparr>logged := logged s @ [LogInfo (signal_name sg @ '' received, shutting down gracefully'')]\<rparr>)"

text \<open>
  Node runs one callback at a time, so concurrency is the order of events:
  \<^item> \<open>Connect\<close>: a client opens a connection; the server takes it while it listens;
  \<^item> \<open>Request i r\<close>: request \<open>r\<close> arrives on the open connection \<open>i\<close>, which is idle (a
    client sends its next request after the previous response; pipelining is left out);
  \<^item> \<open>Complete i\<close>: the request waiting on connection \<open>i\<close> is handled and its response
    delivered; the connection is kept alive;
  \<^item> \<open>Disconnect i\<close>: connection \<open>i\<close> ends, closed by the client or by the server's
    keep-alive timeout;
  \<^item> \<open>Signal sg\<close>: the process receives the signal.
  After \<^verbatim>\<open>process.exit\<close> nothing happens any more.
\<close>

datatype event = Connect | Request nat request | Complete nat | Disconnect nat | Signal signal

definition connect :: "server_state \<Rightarrow> server_state" where
  "connect s =
     (if listening s then s\<lparr>conns := conns s @ [None]\<rparr> else s\<lparr>refused := refused s + 1\<rparr>)"

definition request_on :: "nat \<Rightarrow> request \<Rightarrow> server_state \<Rightarrow> server_state" where
  "request_on i r s =
     (if i < length (conns s) \<and> conns s ! i = None
      then s\<lparr>conns := (conns s)[i := Some r]\<rparr>
      else s)"

definition complete :: "nat \<Rightarrow> server_state \<Rightarrow> server_state" where
  "complete i s =
     (if i < length (conns s) then
        (case conns s ! i of
           None \<Rightarrow> s
         | Some r \<Rightarrow>
             (after r s)\<lparr>conns := (conns s)[i := None],
                         delivered := delivered s @ [respond r s]\<rparr>)
      else s)"

definition disconnect :: "nat \<Rightarrow> server_state \<Rightarrow> server_state" where
  "disconnect i s =
     (if i < length (conns s)
      then emitCloseIfDrained (s\<lparr>conns := take i (conns s) @ drop (Suc i) (conns s)\<rparr>)
      else s)"

fun step :: "event \<Rightarrow> server_state \<Rightarrow> server_state" where
  "step ev s =
     (case exitCode s of
        Some code \<Rightarrow> s
      | None \<Rightarrow>
          (case ev of
             Connect \<Rightarrow> connect s
           | Request i r \<Rightarrow> request_on i r s
           | Complete i \<Rightarrow> complete i s
           | Disconnect i \<Rightarrow> disconnect i s
           | Signal sg \<Rightarrow> on_signal sg s))"

fun run :: "event list \<Rightarrow> server_state \<Rightarrow> server_state" where
  "run [] s = s"
| "run (ev # evs) s = run evs (step ev s)"

subsection \<open>Sample inputs\<close>

text \<open>
  A request without a body, without cache validators, the first of its address in the
  rate limiter's window, handled two and a half seconds after the previous one.
\<close>

definition probe :: "http_method \<Rightarrow> string \<Rightarrow> request" where
  "probe m p =
     \<lparr>req_method = m, pathname = p, originalUrl = p, uriError = False, ip = ''10.0.0.7'',
      userAgent = None, cacheFresh = False, totalHits = 1, resetSeconds = 900,
      jsonFault = None, formFault = None, dateNow = 1000, finishedAt = 1005,
      elapsed = 2500\<rparr>"

section \<open>Properties\<close>

subsection \<open>Unfolding the application\<close>

lemmas layer_defs = always_def star_def route_def helmet_def cors_def limiter_def morgan_def
  express_json_def express_urlencoded_def root_route_def health_route_def metrics_route_def
  status_route_def info_route_def error_handler_def not_found_def request_counting_def
  response_time_def

lemmas handle_defs = handle_def handle_on_def app_def layer_defs finish_def finalhandler_def Let_def

lemma after_locals:
  "requestCount (after r s) = requestCount s \<and> avgResponseTime (after r s) = avgResponseTime s"
  by (simp add: after_def handle_defs split: option.splits)

lemma visited_counters:
  "''request counting'' \<notin> set (visited r s) \<and> ''response time'' \<notin> set (visited r s)"
  by (simp add: visited_def handle_defs split: option.splits)

lemma after_process:
  "listening (after r s) = listening s \<and> closeCallbacks (after r s) = closeCallbacks s \<and>
   conns (after r s) = conns s \<and> delivered (after r s) = delivered s \<and>
   refused (after r s) = refused s \<and> exitCode (after r s) = exitCode s"
  by (simp add: after_def handle_defs split: option.splits)

lemma after_env:
  "NODE_ENV (after r s) = NODE_ENV s \<and> npm_package_version (after r s) = npm_package_version s"
  by (simp add: after_def handle_defs split: option.splits)


lemma respond_options:
  "req_method r = OPTIONS \<Longrightarrow> respond r s = \<lparr>status = 204, body = Empty, headers = []\<rparr>"
  by (simp add: respond_def handle_defs)

lemma respond_limited:
  "req_method r \<noteq> OPTIONS \<Longrightarrow> max_requests < totalHits r \<Longrightarrow>
   respond r s = send r (rate_limit_headers r) 429 (Text limit_message)"
  by (simp add: respond_def handle_defs)

lemma respond_fault:
  "req_method r \<noteq> OPTIONS \<Longrightarrow> totalHits r \<le> max_requests \<Longrightarrow>
   jsonFault r = Some e \<or> jsonFault r = None \<and> formFault r = Some e \<Longrightarrow>
   respond r s = send r (rate_limit_headers r) 500 (Json (JObj
     [(''error'', JStr ''Internal Server Error''),
      (''message'', JStr (if NODE_ENV s = Some ''development'' then message e
                          else ''Something went wrong'')),
      (''timestamp'', JDate (dateNow r))]))"
  by (auto simp add: respond_def handle_defs)

lemma logged_fault:
  "req_method r \<noteq> OPTIONS \<Longrightarrow> totalHits r \<le> max_requests \<Longrightarrow>
   jsonFault r = Some e \<or> jsonFault r = None \<and> formFault r = Some e \<Longrightarrow>
   logged (after r s) = logged s @ [LogError ''Unhandled error:'' e,
      LogAccess (ip r) (req_method r) (originalUrl r) 500]"
  by (auto simp add: after_def handle_defs send_def)

lemma path_matches_apart:
  "path_matches a p \<Longrightarrow> path_matches b p \<Longrightarrow> a \<noteq> ''/'' \<Longrightarrow> b \<noteq> ''/'' \<Longrightarrow>
   a = b \<or> a = b @ ''/'' \<or> b = a @ ''/''"
  by (auto simp add: path_matches_def Let_def)

lemma path_matches_root:
  "path_matches ''/'' p \<Longrightarrow> path_matches b p \<Longrightarrow> b \<noteq> ''/'' \<Longrightarrow> b = [] \<or> b @ ''/'' = ''/''"
  by (auto simp add: path_matches_def Let_def)


lemma metrics_only:
  "get_route ''/metrics'' r \<Longrightarrow> \<not> get_route ''/'' r \<and> \<not> get_route ''/health'' r"
  using path_matches_root [of "pathname r" "''/metrics''"]
    path_matches_apart [of "''/metrics''" "pathname r" "''/health''"]
  by (auto simp add: get_route_def)

lemma info_only:
  "get_route ''/api/v1/info'' r \<Longrightarrow>
   \<not> get_route ''/'' r \<and> \<not> get_route ''/health'' r \<and> \<not> get_route ''/metrics'' r \<and>
   \<not> get_route ''/api/v1/status'' r"
  using path_matches_root [of "pathname r" "''/api/v1/info''"]
    path_matches_apart [of "''/api/v1/info''" "pathname r" "''/health''"]
    path_matches_apart [of "''/api/v1/info''" "pathname r" "''/metrics''"]
    path_matches_apart [of "''/api/v1/info''" "pathname r" "''/api/v1/status''"]
  by (auto simp add: get_route_def)

lemma get_route_not_options: "get_route p r \<Longrightarrow> req_method r \<noteq> OPTIONS"
  by (auto simp add: get_route_def)


lemma respond_metrics:
  "get_route ''/metrics'' r \<Longrightarrow> totalHits r \<le> max_requests \<Longrightarrow>
   jsonFault r = None \<Longrightarrow> formFault r = None \<Longrightarrow>
   respond r s = send r (rate_limit_headers r) 200 (Json (metrics r s))"
  using metrics_only [of r] get_route_not_options [of "''/metrics''" r]
  by (simp add: respond_def handle_defs metrics_def)

lemma respond_info:
  "get_route ''/api/v1/info'' r \<Longrightarrow> totalHits r \<le> max_requests \<Longrightarrow>
   jsonFault r = None \<Longrightarrow> formFault r = None \<Longrightarrow>
   respond r s = send r (rate_limit_headers r) 200 (Json info)"
  using info_only [of r] get_route_not_options [of "''/api/v1/info''" r]
  by (simp add: respond_def handle_defs)

lemma respond_not_found:
  "req_method r \<noteq> OPTIONS \<Longrightarrow> totalHits r \<le> max_requests \<Longrightarrow>
   jsonFault r = None \<Longrightarrow> formFault r = None \<Longrightarrow> \<not> uriError r \<Longrightarrow>
   \<not> get_route ''/'' r \<Longrightarrow> \<not> get_route ''/health'' r \<Longrightarrow> \<not> get_route ''/metrics'' r \<Longrightarrow>
   \<not> get_route ''/api/v1/status'' r \<Longrightarrow> \<not> get_route ''/api/v1/info'' r \<Longrightarrow>
   respond r s = send r (rate_limit_headers r) 404 (Json (JObj
     [(''error'', JStr ''Not Found''),
      (''message'', JStr (''Route '' @ originalUrl r @ '' not found'')),
      (''timestamp'', JDate (dateNow r))]))"
  by (simp add: respond_def handle_defs)

lemma send_plain:
  "req_method r = GET \<Longrightarrow> \<not> cacheFresh r \<Longrightarrow>
   send r hs 200 b = \<lparr>status = 200, body = b, headers = hs\<rparr>"
  by (simp add: send_def)

lemma send_error:
  "400 \<le> code \<Longrightarrow>
   send r hs code b = \<lparr>status = code, body = (if req_method r = HEAD then Empty else b), headers = hs\<rparr>"
  by (simp add: send_def)

lemma serve_locals:
  "requestCount (serve rs s) = requestCount s \<and> avgResponseTime (serve rs s) = avgResponseTime s"
  by (induction rs arbitrary: s) (simp_all add: after_locals)

lemma serve_env:
  "NODE_ENV (serve rs s) = NODE_ENV s \<and> npm_package_version (serve rs s) = npm_package_version s"
  by (induction rs arbitrary: s) (simp_all add: after_env)


lemmas sample_defs = probe_def boot_def get_route_def path_matches_def lower_def
  max_requests_def rate_limit_headers_def or_nat_def or_rat_def or_str_def send_def

subsection \<open>The core, without the rate-limiting policy\<close>

lemma core_layers:
  "core =
     [Use ''helmet'' always helmet,
      Use ''cors'' always cors,
      Use ''morgan'' always morgan,
      Use ''express.json'' always express_json,
      Use ''express.urlencoded'' always express_urlencoded,
      Use ''GET /'' (route ''/'') root_route,
      Use ''GET /health'' (route ''/health'') health_route,
      Use ''GET /metrics'' (route ''/metrics'') metrics_route,
      Use ''GET /api/v1/status'' (route ''/api/v1/status'') status_route,
      Use ''GET /api/v1/info'' (route ''/api/v1/info'') info_route,
      UseError ''error handler'' error_handler,
      Use ''*'' star not_found,
      Use ''request counting'' always request_counting,
      Use ''response time'' always response_time]"
  by (simp add: core_def app_def)

lemmas core_defs = respond_core_def handle_on_def core_layers layer_defs finish_def
  finalhandler_def Let_def

lemma core_ignores_count:
  "respond_core (r\<lparr>totalHits := n, resetSeconds := k\<rparr>) s = respond_core r s"
  by (simp add: core_defs health_def metrics_def get_route_def send_def split: option.splits)

lemma core_reads:
  "NODE_ENV s = NODE_ENV t \<Longrightarrow> npm_package_version s = npm_package_version t \<Longrightarrow>
   requestCount s = requestCount t \<Longrightarrow> avgResponseTime s = avgResponseTime t \<Longrightarrow>
   uptimeMs s = uptimeMs t \<Longrightarrow> respond_core r s = respond_core r t"
  by (simp add: core_defs health_def metrics_def split: option.splits)

lemma core_never_429: "status (respond_core r s) \<noteq> 429"
  by (simp add: core_defs send_def split: option.splits)

lemma behind_policy:
  "totalHits r \<le> max_requests \<Longrightarrow>
   status (respond r s) = status (respond_core r s) \<and> body (respond r s) = body (respond_core r s)"
  by (simp add: respond_def handle_defs core_defs health_def metrics_def send_def split: option.splits)

lemma serve_core:
  "respond_core r (serve rs s) = respond_core r (s\<lparr>uptimeMs := uptimeMs (serve rs s)\<rparr>)"
  by (rule core_reads) (simp_all add: serve_env serve_locals)

subsection \<open>Connections after a signal\<close>

lemmas process_defs = connect_def request_on_def complete_def disconnect_def on_signal_def
  server_close_def emitCloseIfDrained_def close_callback_def process_exit_def

lemma on_signal_drains:
  "exitCode s = None \<Longrightarrow>
   \<not> listening (on_signal sg s) \<and> 0 < closeCallbacks (on_signal sg s) \<and>
   exitCode (on_signal sg s) = (if conns (on_signal sg s) = [] then Some 0 else None) \<and>
   conns (on_signal sg s) = conns s \<and> delivered (on_signal sg s) = delivered s"
  by (simp add: process_defs)

lemma complete_fields:
  assumes "i < length (conns s)" and "conns s ! i = Some r"
  shows "conns (complete i s) = (conns s)[i := None]"
    and "delivered (complete i s) = delivered s @ [respond r s]"
    and "listening (complete i s) = listening s"
    and "closeCallbacks (complete i s) = closeCallbacks s"
    and "exitCode (complete i s) = exitCode s"
    and "refused (complete i s) = refused s"
  using assms by (simp_all add: complete_def after_process)

lemma complete_idle:
  "i < length (conns s) \<Longrightarrow> conns s ! i = None \<Longrightarrow> complete i s = s"
  by (simp add: complete_def)

lemma disconnect_fields:
  assumes "i < length (conns s)"
  shows "conns (disconnect i s) = take i (conns s) @ drop (Suc i) (conns s)"
    and "delivered (disconnect i s) = delivered s"
    and "listening (disconnect i s) = listening s"
    and "closeCallbacks (disconnect i s) = closeCallbacks s"
    and "exitCode (disconnect i s) =
      (if \<not> listening s \<and> take i (conns s) @ drop (Suc i) (conns s) = [] \<and> 0 < closeCallbacks s
       then Some 0 else exitCode s)"
  using assms by (simp_all add: process_defs)

lemma step_draining:
  assumes "\<not> listening s" "0 < closeCallbacks s"
    "exitCode s = (if conns s = [] then Some 0 else None)"
  shows "\<not> listening (step ev s) \<and> 0 < closeCallbacks (step ev s) \<and>
    exitCode (step ev s) = (if conns (step ev s) = [] then Some 0 else None) \<and>
    length (conns (step ev s)) \<le> length (conns s)"
proof (cases "exitCode s")
  case (Some code)
  then show ?thesis using assms by simp
next
  case None
  note running = None
  from None have ne: "conns s \<noteq> []" using assms(3) by (auto split: if_splits)
  show ?thesis
  proof (cases ev)
    case Connect
    then show ?thesis using assms None by (simp add: connect_def)
  next
    case (Request i r)
    then show ?thesis using assms None ne by (simp add: request_on_def)
  next
    case (Complete i)
    show ?thesis
    proof (cases "i < length (conns s)")
      case True
      show ?thesis
      proof (cases "conns s ! i")
        case None
        then show ?thesis using assms running Complete True by (simp add: complete_idle)
      next
        case (Some r)
        show ?thesis
          using assms running Complete ne by (simp add: complete_fields [OF True Some])
      qed
    next
      case False
      then show ?thesis using assms None Complete by (simp add: complete_def)
    qed
  next
    case (Disconnect i)
    show ?thesis
    proof (cases "i < length (conns s)")
      case True
      define xs where "xs = take i (conns s) @ drop (Suc i) (conns s)"
      have len: "length (conns s) = Suc (length xs)"
        using True by (simp add: xs_def)
      have f: "conns (disconnect i s) = xs"
        "listening (disconnect i s) = listening s"
        "closeCallbacks (disconnect i s) = closeCallbacks s"
        "exitCode (disconnect i s) =
           (if \<not> listening s \<and> xs = [] \<and> 0 < closeCallbacks s then Some 0 else exitCode s)"
        using disconnect_fields [OF True] by (simp_all add: xs_def)
      show ?thesis
        using assms None Disconnect by (simp add: f len)
    next
      case False
      then show ?thesis using assms None Disconnect by (simp add: disconnect_def)
    qed
  next
    case (Signal sg)
    then show ?thesis using assms None ne by (simp add: process_defs)
  qed
qed

lemma run_draining:
  "\<not> listening s \<Longrightarrow> 0 < closeCallbacks s \<Longrightarrow>
   exitCode s = (if conns s = [] then Some 0 else None) \<Longrightarrow>
   \<not> listening (run evs s) \<and> 0 < closeCallbacks (run evs s) \<and>
    exitCode (run evs s) = (if conns (run evs s) = [] then Some 0 else None) \<and>
    length (conns (run evs s)) \<le> length (conns s)"
proof (induction evs arbitrary: s)
  case Nil
  then show ?case by simp
next
  case (Cons ev evs)
  note st = step_draining [OF Cons.prems, of ev]
  from st have a: "\<not> listening (step ev s)" and b: "0 < closeCallbacks (step ev s)"
    and c: "exitCode (step ev s) = (if conns (step ev s) = [] then Some 0 else None)"
    and l: "length (conns (step ev s)) \<le> length (conns s)"
    by simp_all
  from Cons.IH [OF a b c] l show ?case by auto
qed

lemma drain_exits:
  "\<not> listening s \<Longrightarrow> 0 < closeCallbacks s \<Longrightarrow>
   exitCode s = (if conns s = [] then Some 0 else None) \<Longrightarrow>
   length (conns s) = n \<Longrightarrow>
   exitCode (run (replicate n (Disconnect 0)) s) = Some 0"
proof (induction n arbitrary: s)
  case 0
  then show ?case by simp
next
  case (Suc n)
  from Suc.prems have ne: "conns s \<noteq> []" and ex: "exitCode s = None" by auto
  have pos: "0 < length (conns s)" using ne by simp
  note st = step_draining [OF Suc.prems(1-3), of "Disconnect 0"]
  have len: "length (conns (step (Disconnect 0) s)) = n"
    using Suc.prems(4) ex by (simp add: disconnect_fields(1) [OF pos])
  from st have a: "\<not> listening (step (Disconnect 0) s)" and b: "0 < closeCallbacks (step (Disconnect 0) s)"
    and c: "exitCode (step (Disconnect 0) s) = (if conns (step (Disconnect 0) s) = [] then Some 0 else None)"
    by simp_all
  from Suc.IH [OF a b c len] show ?case by simp
qed

lemma kept_alive:
  assumes "listening s" and "exitCode s = None" and "conns s = []"
    and "get_route ''/api/v1/info'' a" and "totalHits a \<le> max_requests"
    and "jsonFault a = None" and "formFault a = None"
  shows "conns (run [Connect, Request 0 a, Complete 0] s) = [None]"
    and "listening (run [Connect, Request 0 a, Complete 0] s)"
    and "exitCode (run [Connect, Request 0 a, Complete 0] s) = None"
    and "delivered (run [Connect, Request 0 a, Complete 0] s)
           = delivered s @ [send a (rate_limit_headers a) 200 (Json info)]"
proof -
  define s1 where "s1 = step Connect s"
  have s1: "conns s1 = [None]" "listening s1" "exitCode s1 = None" "delivered s1 = delivered s"
    using assms(1-3) by (simp_all add: s1_def connect_def)
  define s2 where "s2 = step (Request 0 a) s1"
  have s2: "conns s2 = [Some a]" "listening s2" "exitCode s2 = None" "delivered s2 = delivered s"
    using s1 by (simp_all add: s2_def request_on_def)
  have i: "0 < length (conns s2)" and c: "conns s2 ! 0 = Some a" using s2 by simp_all
  define s3 where "s3 = step (Complete 0) s2"
  have s3: "conns s3 = [None]" "listening s3" "exitCode s3 = None"
    "delivered s3 = delivered s @ [respond a s2]"
    using s2 complete_fields [OF i c] by (simp_all add: s3_def)
  have "run [Connect, Request 0 a, Complete 0] s = s3"
    by (simp only: run.simps s1_def s2_def s3_def)
  with s3 respond_info [OF assms(4-7), of s2]
  show "conns (run [Connect, Request 0 a, Complete 0] s) = [None]"
    and "listening (run [Connect, Request 0 a, Complete 0] s)"
    and "exitCode (run [Connect, Request 0 a, Complete 0] s) = None"
    and "delivered (run [Connect, Request 0 a, Complete 0] s)
           = delivered s @ [send a (rate_limit_headers a) 200 (Json info)]"
    by simp_all
qed

lemma served_while_draining:
  assumes "\<not> listening s" and "exitCode s = None" and "conns s = [None]" and "0 < closeCallbacks s"
    and "get_route ''/api/v1/info'' b" and "totalHits b \<le> max_requests"
    and "jsonFault b = None" and "formFault b = None"
  shows "conns (run [Request 0 b, Complete 0] s) = [None]"
    and "exitCode (run [Request 0 b, Complete 0] s) = None"
    and "delivered (run [Request 0 b, Complete 0] s)
           = delivered s @ [send b (rate_limit_headers b) 200 (Json info)]"
    and "exitCode (run [Request 0 b, Complete 0, Disconnect 0] s) = Some 0"
proof -
  define s1 where "s1 = step (Request 0 b) s"
  have s1: "conns s1 = [Some b]" "\<not> listening s1" "exitCode s1 = None" "delivered s1 = delivered s"
    "0 < closeCallbacks s1"
    using assms(1-4) by (simp_all add: s1_def request_on_def)
  have i: "0 < length (conns s1)" and c: "conns s1 ! 0 = Some b" using s1 by simp_all
  define s2 where "s2 = step (Complete 0) s1"
  have s2: "conns s2 = [None]" "\<not> listening s2" "exitCode s2 = None"
    "delivered s2 = delivered s @ [respond b s1]" "0 < closeCallbacks s2"
    using s1 complete_fields [OF i c] by (simp_all add: s2_def)
  have j: "0 < length (conns s2)" using s2 by simp
  define s3 where "s3 = step (Disconnect 0) s2"
  have s3: "exitCode s3 = Some 0"
    using s2 disconnect_fields [OF j] by (simp add: s3_def)
  have r2: "run [Request 0 b, Complete 0] s = s2"
    by (simp only: run.simps s1_def s2_def)
  have r3: "run [Request 0 b, Complete 0, Disconnect 0] s = s3"
    by (simp only: run.simps s1_def s2_def s3_def)
  from s2 s3 respond_info [OF assms(5-8), of s1]
  show "conns (run [Request 0 b, Complete 0] s) = [None]"
    and "exitCode (run [Request 0 b, Complete 0] s) = None"
    and "delivered (run [Request 0 b, Complete 0] s)
           = delivered s @ [send b (rate_limit_headers b) 200 (Json info)]"
    and "exitCode (run [Request 0 b, Complete 0, Disconnect 0] s) = Some 0"
    unfolding r2 r3 by simp_all
qed

subsection \<open>Request count and average response time\<close>

text \<open>
  Claim C1: after N sequential requests, \<^verbatim>\<open>GET /metrics\<close> reports
  \<^verbatim>\<open>http_requests_total.total\<close> equal to N. The code at N = 1: one \<^verbatim>\<open>GET /health\<close> on
  a freshly started server, then \<^verbatim>\<open>GET /metrics\<close>. The reported total is 0, not 1: the
  counting middleware is registered behind the catch-all 404 handler.
\<close>

theorem metrics_total_after_one_request:
  "respond ((probe GET ''/metrics'')\<lparr>totalHits := 2\<rparr>)
     (serve [probe GET ''/health''] (boot None None None)) =
     \<lparr>status = 200, body = Json (JObj
        [(''http_requests_total'', JObj [(''total'', JNum 0), (''timestamp'', JDate 1000)]),
         (''http_request_duration_seconds'', JObj [(''average'', JNum 0), (''timestamp'', JDate 1000)])]),
      headers = [(''RateLimit-Limit'', 100), (''RateLimit-Remaining'', 98), (''RateLimit-Reset'', 900)]\<rparr>"
  by (simp add: respond_def after_def handle_defs metrics_def sample_defs)

text \<open>
  Claim C2: every completed request folds its duration into the average, so that after
  one completed request of duration D the reported average is D. The code after one
  \<^verbatim>\<open>GET /api/v1/info\<close> that took 5 ms: the reported average is 0.
\<close>

theorem metrics_average_after_one_request:
  "finishedAt (probe GET ''/api/v1/info'') - dateNow (probe GET ''/api/v1/info'') = 5 \<and>
   status (respond (probe GET ''/api/v1/info'') (boot None None None)) = 200 \<and>
   field ''http_request_duration_seconds''
     (body (respond ((probe GET ''/metrics'')\<lparr>totalHits := 2\<rparr>)
        (serve [probe GET ''/api/v1/info''] (boot None None None))))
     = Some (JObj [(''average'', JNum 0), (''timestamp'', JDate 1000)])"
  by (simp add: respond_def after_def handle_defs metrics_def sample_defs)

text \<open>
  What the two middleware functions compute when they do run, one after the other: the
  count of the request itself, and the mean of the durations seen so far.
\<close>

lemma counters_first_request:
  "requestCount s = None \<Longrightarrow> avgResponseTime s = None \<Longrightarrow>
   request_counting r s = Next s' \<Longrightarrow>
   requestCount s' = Some 1 \<and>
   avgResponseTime (record_duration start r s') = Some (of_int (finishedAt r - start))"
  by (auto simp add: request_counting_def record_duration_def totalRequests_def or_nat_def or_rat_def)

lemma counters_second_request:
  "requestCount s = Some 1 \<Longrightarrow> avgResponseTime s = Some d1 \<Longrightarrow>
   request_counting r s = Next s' \<Longrightarrow>
   requestCount s' = Some 2 \<and>
   avgResponseTime (record_duration start r s') = Some ((d1 + of_int (finishedAt r - start)) / 2)"
  by (auto simp add: request_counting_def record_duration_def totalRequests_def or_nat_def or_rat_def)

text \<open>
  Claim C3: the request-counting and response-time middleware are registered after
  every route and after the catch-all 404 handler, each of which ends the request, so no
  request executes either of them; after every sequence of requests
  \<^verbatim>\<open>GET /metrics\<close> reports total 0 and average 0. The last two conjuncts say what is
  sent: \<^verbatim>\<open>res.json\<close> of that payload, which for a GET without matching cache
  validators is a 200 with the payload as body.
\<close>

theorem counters_never_run:
  "''request counting'' \<notin> set (visited r s) \<and> ''response time'' \<notin> set (visited r s) \<and>
   requestCount (serve rs (boot e v p)) = None \<and>
   avgResponseTime (serve rs (boot e v p)) = None \<and>
   metrics q (serve rs (boot e v p)) = JObj
     [(''http_requests_total'', JObj [(''total'', JNum 0), (''timestamp'', JDate (dateNow q))]),
      (''http_request_duration_seconds'', JObj [(''average'', JNum 0), (''timestamp'', JDate (dateNow q))])] \<and>
   (get_route ''/metrics'' q \<and> totalHits q \<le> max_requests \<and>
    jsonFault q = None \<and> formFault q = None \<longrightarrow>
    respond q (serve rs (boot e v p)) =
      send q (rate_limit_headers q) 200 (Json (metrics q (serve rs (boot e v p))))) \<and>
   (req_method q = GET \<and> \<not> cacheFresh q \<longrightarrow>
    send q (rate_limit_headers q) 200 (Json (metrics q (serve rs (boot e v p)))) =
      \<lparr>status = 200, body = Json (metrics q (serve rs (boot e v p))),
       headers = rate_limit_headers q\<rparr>)"
proof -
  have "requestCount (boot e v p) = None" "avgResponseTime (boot e v p) = None"
    by (simp_all add: boot_def)
  then have loc: "requestCount (serve rs (boot e v p)) = None"
    "avgResponseTime (serve rs (boot e v p)) = None"
    by (simp_all add: serve_locals)
  then show ?thesis
    by (simp add: visited_counters metrics_def or_nat_def or_rat_def respond_metrics send_plain)
qed

theorem counters_never_run_witness:
  "get_route ''/metrics'' ((probe GET ''/metrics'')\<lparr>totalHits := 4\<rparr>) \<and>
   respond ((probe GET ''/metrics'')\<lparr>totalHits := 4\<rparr>)
     (serve [probe GET ''/'', (probe POST ''/metrics'')\<lparr>totalHits := 2\<rparr>,
             (probe GET ''/health'')\<lparr>totalHits := 3\<rparr>] (boot None None None)) =
     \<lparr>status = 200, body = Json (JObj
        [(''http_requests_total'', JObj [(''total'', JNum 0), (''timestamp'', JDate 1000)]),
         (''http_request_duration_seconds'', JObj [(''average'', JNum 0), (''timestamp'', JDate 1000)])]),
      headers = [(''RateLimit-Limit'', 100), (''RateLimit-Remaining'', 96), (''RateLimit-Reset'', 900)]\<rparr>"
proof -
  let ?q = "(probe GET ''/metrics'')\<lparr>totalHits := 4\<rparr>"
  let ?rs = "[probe GET ''/'', (probe POST ''/metrics'')\<lparr>totalHits := 2\<rparr>,
             (probe GET ''/health'')\<lparr>totalHits := 3\<rparr>]"
  have g: "get_route ''/metrics'' ?q" by (simp add: sample_defs)
  have a: "totalHits ?q \<le> max_requests" by (simp add: sample_defs)
  have b: "jsonFault ?q = None \<and> formFault ?q = None" by (simp add: probe_def)
  have c: "req_method ?q = GET \<and> \<not> cacheFresh ?q" by (simp add: probe_def)
  note t = counters_never_run [where r = ?q and s = "boot None None None" and rs = ?rs
      and e = None and v = None and p = None and q = ?q]
  from t g a b have "respond ?q (serve ?rs (boot None None None)) =
      send ?q (rate_limit_headers ?q) 200 (Json (metrics ?q (serve ?rs (boot None None None))))"
    by blast
  moreover from t have "metrics ?q (serve ?rs (boot None None None)) = JObj
     [(''http_requests_total'', JObj [(''total'', JNum 0), (''timestamp'', JDate (dateNow ?q))]),
      (''http_request_duration_seconds'', JObj [(''average'', JNum 0), (''timestamp'', JDate (dateNow ?q))])]"
    by blast
  ultimately show ?thesis
    using g by (simp add: send_def probe_def rate_limit_headers_def max_requests_def del: serve.simps)
qed

text \<open>
  Claim C10: the running-average computation divides by
  \<^verbatim>\<open>requestCount || 1\<close>, which is at least 1 in every state of the counters, so the
  division never divides by zero.
\<close>

theorem divisor_at_least_one:
  "1 \<le> totalRequests s \<and> (of_nat (totalRequests s) :: rat) \<noteq> 0 \<and>
   totalRequests s = (case requestCount s of None \<Rightarrow> 1 | Some n \<Rightarrow> if n = 0 then 1 else n) \<and>
   avgResponseTime (record_duration start r s) =
     Some ((or_rat (avgResponseTime s) 0 * (of_nat (totalRequests s) - 1)
            + of_int (finishedAt r - start)) / of_nat (totalRequests s))"
  by (simp add: totalRequests_def or_nat_def record_duration_def split: option.splits)

subsection \<open>The error boundary\<close>

text \<open>
  Claim C4 as stated lets a non-production configuration see the real error text. With
  \<^verbatim>\<open>NODE_ENV=staging\<close> a request whose JSON body fails to parse is answered with the
  generic message.
\<close>

theorem error_message_hidden_in_staging:
  "NODE_ENV (boot (Some ''staging'') None None) = Some ''staging'' \<and>
   ''staging'' \<noteq> ''production'' \<and>
   respond ((probe POST ''/api/v1/status'')\<lparr>jsonFault := Some (Error ''Unexpected end of JSON input'' (Some 400))\<rparr>)
     (boot (Some ''staging'') None None) =
     \<lparr>status = 500, body = Json (JObj
        [(''error'', JStr ''Internal Server Error''),
         (''message'', JStr ''Something went wrong''),
         (''timestamp'', JDate 1000)]),
      headers = [(''RateLimit-Limit'', 100), (''RateLimit-Remaining'', 99), (''RateLimit-Reset'', 900)]\<rparr>"
  by (simp add: respond_def handle_defs sample_defs)

text \<open>
  Claim C4, amended: an error raised while a request is processed (here: by a body
  parser, for a request that passed the CORS and rate-limit middleware) is logged and
  answered with status 500, error kind "Internal Server Error", a timestamp and a message
  that is the error's text exactly when \<^verbatim>\<open>NODE_ENV\<close> is \<^verbatim>\<open>development\<close>, and
  "Something went wrong" otherwise; the process keeps running. (The answer to a HEAD
  request has the status and no body.)
\<close>

theorem error_boundary:
  assumes "req_method r \<noteq> OPTIONS"
    and "totalHits r \<le> max_requests"
    and "jsonFault r = Some e \<or> jsonFault r = None \<and> formFault r = Some e"
  shows "respond r s = \<lparr>status = 500,
       body = (if req_method r = HEAD then Empty else Json (JObj
         [(''error'', JStr ''Internal Server Error''),
          (''message'', JStr (if NODE_ENV s = Some ''development'' then message e
                              else ''Something went wrong'')),
          (''timestamp'', JDate (dateNow r))])),
       headers = rate_limit_headers r\<rparr> \<and>
     logged (after r s) = logged s @
       [LogError ''Unhandled error:'' e, LogAccess (ip r) (req_method r) (originalUrl r) 500] \<and>
     exitCode (after r s) = exitCode s \<and> listening (after r s) = listening s"
  using respond_fault [OF assms] logged_fault [OF assms] by (simp add: after_process send_error)

theorem error_boundary_witness:
  "respond ((probe POST ''/api/v1/status'')\<lparr>jsonFault := Some (Error ''Unexpected end of JSON input'' (Some 400))\<rparr>)
     (boot (Some ''development'') None None) =
     \<lparr>status = 500, body = Json (JObj
        [(''error'', JStr ''Internal Server Error''),
         (''message'', JStr ''Unexpected end of JSON input''),
         (''timestamp'', JDate 1000)]),
      headers = [(''RateLimit-Limit'', 100), (''RateLimit-Remaining'', 99), (''RateLimit-Reset'', 900)]\<rparr> \<and>
   exitCode (after ((probe POST ''/api/v1/status'')\<lparr>jsonFault := Some (Error ''Unexpected end of JSON input'' (Some 400))\<rparr>)
     (boot (Some ''development'') None None)) = None"
  using error_boundary [where r = "(probe POST ''/api/v1/status'')\<lparr>jsonFault := Some (Error ''Unexpected end of JSON input'' (Some 400))\<rparr>"
      and s = "boot (Some ''development'') None None" and e = "Error ''Unexpected end of JSON input'' (Some 400)"]
  by (simp add: sample_defs)

subsection \<open>Rate limiting\<close>

text \<open>
  Claim C5: the core never rejects or alters a request because of the number of earlier
  requests from the same address; rate limiting is a policy in front of the core. In
  \<^verbatim>\<open>server.js\<close> that policy is the \<^verbatim>\<open>express-rate-limit\<close> layer, and the core is the
  application without it. The core's response does not read the count the policy keeps;
  it is the same after any earlier requests as without them, the process clock being
  equal; it is never a 429; and behind the policy, for a request the policy lets through,
  the application answers with the core's status and body.
\<close>

theorem core_ignores_request_counts:
  "respond_core (r\<lparr>totalHits := n, resetSeconds := k\<rparr>) s = respond_core r s \<and>
   respond_core r (serve rs s) = respond_core r (s\<lparr>uptimeMs := uptimeMs (serve rs s)\<rparr>) \<and>
   status (respond_core r s) \<noteq> 429 \<and>
   (totalHits r \<le> max_requests \<longrightarrow>
      status (respond r s) = status (respond_core r s) \<and>
      body (respond r s) = body (respond_core r s))"
  using core_ignores_count [where r = r and n = n and k = k and s = s]
    serve_core [where r = r and rs = rs and s = s] core_never_429 [where r = r and s = s]
    behind_policy [where r = r and s = s]
  by blast

theorem core_ignores_request_counts_witness:
  "respond_core ((probe GET ''/api/v1/info'')\<lparr>totalHits := 101, resetSeconds := 60\<rparr>) (boot None None None)
     = \<lparr>status = 200, body = Json info, headers = []\<rparr> \<and>
   body (respond (probe GET ''/api/v1/info'') (boot None None None)) = Json info"
proof -
  let ?r = "probe GET ''/api/v1/info''"
  let ?b = "boot None None None"
  have c: "respond_core ?r ?b = \<lparr>status = 200, body = Json info, headers = []\<rparr>"
    by (simp add: core_defs sample_defs)
  have a: "totalHits ?r \<le> max_requests" by (simp add: sample_defs)
  from core_ignores_request_counts [where r = ?r and n = 101 and k = 60 and s = ?b and rs = "[]"] a c
  show ?thesis by simp
qed

subsection \<open>Health\<close>




subsection \<open>Unmatched routes\<close>

text \<open>
  Claim C7 as stated has every request that matches no route answered 404 with an
  error payload. Above the rate limit the answer is 429, to an OPTIONS request 204, to a
  body a parser rejects 500, to a path that does not decode 400, and the 404 to a HEAD
  request has no body.
\<close>

theorem unmatched_not_always_404:
  "\<not> get_route ''/'' (probe GET ''/nonexistent-path'') \<and>
   \<not> get_route ''/health'' (probe GET ''/nonexistent-path'') \<and>
   \<not> get_route ''/metrics'' (probe GET ''/nonexistent-path'') \<and>
   \<not> get_route ''/api/v1/status'' (probe GET ''/nonexistent-path'') \<and>
   \<not> get_route ''/api/v1/info'' (probe GET ''/nonexistent-path'') \<and>
   status (respond ((probe GET ''/nonexistent-path'')\<lparr>totalHits := 101\<rparr>) (boot None None None)) = 429 \<and>
   status (respond (probe OPTIONS ''/nonexistent-path'') (boot None None None)) = 204 \<and>
   status (respond ((probe POST ''/nonexistent-path'')\<lparr>formFault := Some (Error ''request entity too large'' (Some 413))\<rparr>)
     (boot None None None)) = 500 \<and>
   respond ((probe GET ''/%'')\<lparr>uriError := True\<rparr>) (boot None None None) =
     \<lparr>status = 400, body = ErrorPage,
      headers = [(''RateLimit-Limit'', 100), (''RateLimit-Remaining'', 99), (''RateLimit-Reset'', 900)]\<rparr> \<and>
   respond (probe HEAD ''/nonexistent-path'') (boot None None None) =
     \<lparr>status = 404, body = Empty,
      headers = [(''RateLimit-Limit'', 100), (''RateLimit-Remaining'', 99), (''RateLimit-Reset'', 900)]\<rparr>"
  by (simp add: respond_def handle_defs sample_defs)

text \<open>
  Claim C7, amended: a request other than OPTIONS that the rate limiter lets through,
  whose body the parsers accept, whose path decodes and that matches none of the five
  routes is answered 404; unless it is a HEAD request, the body has error "Not Found", a
  timestamp and the message \<^verbatim>\<open>Route <originalUrl> not found\<close>, which contains the
  request target as the client sent it.
\<close>

theorem not_found_payload:
  assumes "req_method r \<noteq> OPTIONS"
    and "totalHits r \<le> max_requests"
    and "jsonFault r = None" and "formFault r = None" and "\<not> uriError r"
    and "\<not> get_route ''/'' r" and "\<not> get_route ''/health'' r" and "\<not> get_route ''/metrics'' r"
    and "\<not> get_route ''/api/v1/status'' r" and "\<not> get_route ''/api/v1/info'' r"
  shows "respond r s = \<lparr>status = 404,
       body = (if req_method r = HEAD then Empty else Json (JObj
         [(''error'', JStr ''Not Found''),
          (''message'', JStr (''Route '' @ originalUrl r @ '' not found'')),
          (''timestamp'', JDate (dateNow r))])),
       headers = rate_limit_headers r\<rparr> \<and>
     sublist (originalUrl r) (''Route '' @ originalUrl r @ '' not found'')"
proof -
  have "sublist (originalUrl r) (''Route '' @ originalUrl r @ '' not found'')"
    unfolding sublist_def by blast
  then show ?thesis using respond_not_found [OF assms, of s] by (simp add: send_error)
qed

theorem not_found_payload_witness:
  "respond ((probe GET ''/nope'')\<lparr>originalUrl := ''http://example.com/nope?x=1''\<rparr>) (boot None None None) =
     \<lparr>status = 404, body = Json (JObj
       [(''error'', JStr ''Not Found''),
        (''message'', JStr ''Route http://example.com/nope?x=1 not found''),
        (''timestamp'', JDate 1000)]),
      headers = [(''RateLimit-Limit'', 100), (''RateLimit-Remaining'', 99), (''RateLimit-Reset'', 900)]\<rparr>"
  using not_found_payload [where r = "(probe GET ''/nope'')\<lparr>originalUrl := ''http://example.com/nope?x=1''\<rparr>"
      and s = "boot None None None"]
  by (simp add: sample_defs)

subsection \<open>Application information\<close>

text \<open>
  Claim C9 as stated has any two \<^verbatim>\<open>GET /api/v1/info\<close> calls produce the same body.
  A call above the rate limit gets the limiter's text, a call with a JSON body the parser
  rejects the error payload, and a call whose cache validators match no body at all.
\<close>

theorem info_not_always_same:
  "body (respond (probe GET ''/api/v1/info'') (boot None None None)) = Json info \<and>
   body (respond ((probe GET ''/api/v1/info'')\<lparr>totalHits := 101\<rparr>) (boot None None None))
     = Text ''Too many requests from this IP, please try again later.'' \<and>
   status (respond ((probe GET ''/api/v1/info'')\<lparr>jsonFault := Some (Error ''Unexpected end of JSON input'' (Some 400))\<rparr>)
     (boot None None None)) = 500 \<and>
   respond ((probe GET ''/api/v1/info'')\<lparr>cacheFresh := True\<rparr>) (boot None None None) =
     \<lparr>status = 304, body = Empty,
      headers = [(''RateLimit-Limit'', 100), (''RateLimit-Remaining'', 99), (''RateLimit-Reset'', 900)]\<rparr>"
  by (simp add: respond_def handle_defs sample_defs limit_message_def)

text \<open>
  Claim C9, amended: any two \<^verbatim>\<open>GET /api/v1/info\<close> calls that the rate limiter lets
  through, whose bodies the parsers accept and that are not answered 304 are answered 200
  with the same body, whatever the state of the process, and its
  \<^verbatim>\<open>technologies\<close> field is a fixed list of twelve strings.
\<close>

theorem info_static:
  assumes "req_method r1 = GET" and "path_matches ''/api/v1/info'' (pathname r1)"
    and "totalHits r1 \<le> max_requests" and "jsonFault r1 = None" and "formFault r1 = None"
    and "\<not> cacheFresh r1"
    and "req_method r2 = GET" and "path_matches ''/api/v1/info'' (pathname r2)"
    and "totalHits r2 \<le> max_requests" and "jsonFault r2 = None" and "formFault r2 = None"
    and "\<not> cacheFresh r2"
  shows "status (respond r1 s1) = 200 \<and> status (respond r2 s2) = 200 \<and>
     body (respond r1 s1) = body (respond r2 s2) \<and>
     field ''technologies'' (body (respond r1 s1)) = Some (JArr (map JStr
       [''Node.js'', ''Express'', ''Docker'', ''Kubernetes'', ''Jenkins'', ''GitHub Actions'',
        ''Terraform'', ''Ansible'', ''SonarQube'', ''Trivy'', ''Prometheus'', ''Grafana'']))"
proof -
  have g1: "get_route ''/api/v1/info'' r1" and g2: "get_route ''/api/v1/info'' r2"
    using assms(1,2,7,8) by (simp_all add: get_route_def)
  have a: "respond r1 s1 = \<lparr>status = 200, body = Json info, headers = rate_limit_headers r1\<rparr>"
    using respond_info [OF g1 assms(3,4,5), of s1] assms(1,6) by (simp add: send_plain)
  have b: "respond r2 s2 = \<lparr>status = 200, body = Json info, headers = rate_limit_headers r2\<rparr>"
    using respond_info [OF g2 assms(9,10,11), of s2] assms(7,12) by (simp add: send_plain)
  show ?thesis unfolding a b by (simp add: info_def technologies_def)
qed

theorem info_static_witness:
  "body (respond (probe GET ''/api/v1/info'') (boot None None None)) =
   body (respond ((probe GET ''/API/v1/info/'')\<lparr>ip := ''192.168.1.9'', dateNow := 86400000, totalHits := 57\<rparr>)
     (serve [probe GET ''/api/v1/info'', (probe GET ''/health'')\<lparr>totalHits := 2\<rparr>]
        (boot (Some ''production'') None (Some ''8080''))))"
proof -
  let ?r1 = "probe GET ''/api/v1/info''"
  let ?r2 = "(probe GET ''/API/v1/info/'')\<lparr>ip := ''192.168.1.9'', dateNow := 86400000, totalHits := 57\<rparr>"
  have h1: "req_method ?r1 = GET" "path_matches ''/api/v1/info'' (pathname ?r1)"
    "totalHits ?r1 \<le> max_requests" "jsonFault ?r1 = None" "formFault ?r1 = None" "\<not> cacheFresh ?r1"
    by (simp_all add: probe_def path_matches_def lower_def max_requests_def)
  have h2: "req_method ?r2 = GET" "path_matches ''/api/v1/info'' (pathname ?r2)"
    "totalHits ?r2 \<le> max_requests" "jsonFault ?r2 = None" "formFault ?r2 = None" "\<not> cacheFresh ?r2"
    by (simp_all add: probe_def path_matches_def lower_def max_requests_def)
  from info_static [OF h1 h2] show ?thesis by blast
qed

subsection \<open>Graceful shutdown\<close>

text \<open>
  Claim C8 as stated has no request accepted after the signal and the process exit once
  the requests in flight are answered. With a connection kept alive from an earlier
  request: a request sent on it after SIGTERM is answered 200, and the process exits only
  when the connection ends.
\<close>

theorem request_served_after_signal:
  "delivered (run [Request 0 ((probe GET ''/api/v1/info'')\<lparr>totalHits := 2\<rparr>), Complete 0]
      (step (Signal SIGTERM)
        (run [Connect, Request 0 (probe GET ''/api/v1/info''), Complete 0] (boot None None None))))
     = [\<lparr>status = 200, body = Json info,
          headers = [(''RateLimit-Limit'', 100), (''RateLimit-Remaining'', 99), (''RateLimit-Reset'', 900)]\<rparr>,
        \<lparr>status = 200, body = Json info,
          headers = [(''RateLimit-Limit'', 100), (''RateLimit-Remaining'', 98), (''RateLimit-Reset'', 900)]\<rparr>] \<and>
   exitCode (run [Request 0 ((probe GET ''/api/v1/info'')\<lparr>totalHits := 2\<rparr>), Complete 0]
      (step (Signal SIGTERM)
        (run [Connect, Request 0 (probe GET ''/api/v1/info''), Complete 0] (boot None None None))))
     = None \<and>
   exitCode (run [Request 0 ((probe GET ''/api/v1/info'')\<lparr>totalHits := 2\<rparr>), Complete 0, Disconnect 0]
      (step (Signal SIGTERM)
        (run [Connect, Request 0 (probe GET ''/api/v1/info''), Complete 0] (boot None None None))))
     = Some 0"
proof -
  let ?a = "probe GET ''/api/v1/info''"
  let ?b = "(probe GET ''/api/v1/info'')\<lparr>totalHits := 2\<rparr>"
  let ?s0 = "run [Connect, Request 0 ?a, Complete 0] (boot None None None)"
  let ?s1 = "step (Signal SIGTERM) ?s0"
  have ga: "get_route ''/api/v1/info'' ?a" "totalHits ?a \<le> max_requests"
    "jsonFault ?a = None" "formFault ?a = None"
    by (simp_all add: probe_def get_route_def path_matches_def lower_def max_requests_def)
  have gb: "get_route ''/api/v1/info'' ?b" "totalHits ?b \<le> max_requests"
    "jsonFault ?b = None" "formFault ?b = None"
    by (simp_all add: probe_def get_route_def path_matches_def lower_def max_requests_def)
  have b0: "listening (boot None None None)" "exitCode (boot None None None) = None"
    "conns (boot None None None) = []" "delivered (boot None None None) = []"
    by (simp_all add: boot_def)
  note k = kept_alive [OF b0(1-3) ga]
  have s1: "?s1 = on_signal SIGTERM ?s0" using k(3) by simp
  have d: "\<not> listening ?s1" "exitCode ?s1 = None" "conns ?s1 = [None]" "0 < closeCallbacks ?s1"
    "delivered ?s1 = delivered ?s0"
    unfolding s1 using on_signal_drains [OF k(3), of SIGTERM] k(1) by simp_all
  note w = served_while_draining [OF d(1-4) gb]
  have ra: "send ?a (rate_limit_headers ?a) 200 (Json info) = \<lparr>status = 200, body = Json info,
      headers = [(''RateLimit-Limit'', 100), (''RateLimit-Remaining'', 99), (''RateLimit-Reset'', 900)]\<rparr>"
    by (simp add: send_plain probe_def rate_limit_headers_def max_requests_def)
  have rb: "send ?b (rate_limit_headers ?b) 200 (Json info) = \<lparr>status = 200, body = Json info,
      headers = [(''RateLimit-Limit'', 100), (''RateLimit-Remaining'', 98), (''RateLimit-Reset'', 900)]\<rparr>"
    by (simp add: send_plain probe_def rate_limit_headers_def max_requests_def)
  show ?thesis
    unfolding w(2) w(3) w(4) d(5) k(4) b0(4) ra rb by simp
qed

text \<open>
  Claim C8, amended: on SIGTERM or SIGINT while running, the server stops accepting
  connections. On the connections that are open it goes on as before: a request waiting
  for its response is handled and answered, and a request sent later on an idle
  connection is taken. The process exits, with code 0, exactly when no connection is
  open any more, so it does exit once the open connections have ended. Stated for every
  order of events after the signal.
\<close>

theorem shutdown_drains_connections:
  assumes "listening s" and "exitCode s = None"
  shows "\<not> listening (run evs (step (Signal sg) s)) \<and>
    conns (step Connect (run evs (step (Signal sg) s))) = conns (run evs (step (Signal sg) s)) \<and>
    length (conns (run evs (step (Signal sg) s))) \<le> length (conns s) \<and>
    exitCode (run evs (step (Signal sg) s))
      = (if conns (run evs (step (Signal sg) s)) = [] then Some 0 else None) \<and>
    (\<forall>i r. i < length (conns (run evs (step (Signal sg) s))) \<and>
           conns (run evs (step (Signal sg) s)) ! i = Some r \<longrightarrow>
       delivered (step (Complete i) (run evs (step (Signal sg) s)))
         = delivered (run evs (step (Signal sg) s)) @ [respond r (run evs (step (Signal sg) s))] \<and>
       exitCode (step (Complete i) (run evs (step (Signal sg) s))) = None) \<and>
    (\<forall>i r. i < length (conns (run evs (step (Signal sg) s))) \<and>
           conns (run evs (step (Signal sg) s)) ! i = None \<longrightarrow>
       conns (step (Request i r) (run evs (step (Signal sg) s))) ! i = Some r) \<and>
    exitCode (run (replicate (length (conns (run evs (step (Signal sg) s)))) (Disconnect 0))
                (run evs (step (Signal sg) s))) = Some 0"
proof -
  let ?s1 = "step (Signal sg) s"
  let ?S = "run evs ?s1"
  have s1: "?s1 = on_signal sg s" using assms(2) by simp
  note d = on_signal_drains [OF assms(2), of sg]
  from d have a: "\<not> listening ?s1" and b: "0 < closeCallbacks ?s1"
    and c: "exitCode ?s1 = (if conns ?s1 = [] then Some 0 else None)"
    and i: "conns ?s1 = conns s"
    unfolding s1 by simp_all
  note inv = run_draining [OF a b c, of evs]
  from inv have a2: "\<not> listening ?S" and b2: "0 < closeCallbacks ?S"
    and c2: "exitCode ?S = (if conns ?S = [] then Some 0 else None)"
    and l2: "length (conns ?S) \<le> length (conns s)"
    unfolding i by simp_all
  have refuse: "conns (step Connect ?S) = conns ?S"
    using a2 by (cases "exitCode ?S") (simp_all add: connect_def)
  have answer: "delivered (step (Complete i) ?S) = delivered ?S @ [respond r ?S] \<and>
      exitCode (step (Complete i) ?S) = None"
    if "i < length (conns ?S)" and "conns ?S ! i = Some r" for i r
  proof -
    from that(1) have "conns ?S \<noteq> []" by auto
    with c2 have ex: "exitCode ?S = None" by simp
    then show ?thesis
      using complete_fields(2,5) [OF that] by simp
  qed
  have accept: "conns (step (Request i r) ?S) ! i = Some r"
    if "i < length (conns ?S)" and "conns ?S ! i = None" for i r
  proof -
    from that(1) have "conns ?S \<noteq> []" by auto
    with c2 have ex: "exitCode ?S = None" by simp
    then show ?thesis using that by (simp add: request_on_def)
  qed
  have exits: "exitCode (run (replicate (length (conns ?S)) (Disconnect 0)) ?S) = Some 0"
    by (rule drain_exits [OF a2 b2 c2 refl])
  from a2 refuse l2 c2 answer accept exits show ?thesis by blast
qed

theorem shutdown_drains_connections_witness:
  "\<not> listening (run [Request 0 ((probe GET ''/api/v1/info'')\<lparr>totalHits := 2\<rparr>), Complete 0]
      (step (Signal SIGINT)
        (run [Connect, Request 0 (probe GET ''/api/v1/info''), Complete 0] (boot None None None)))) \<and>
   exitCode (run [Disconnect 0]
     (run [Request 0 ((probe GET ''/api/v1/info'')\<lparr>totalHits := 2\<rparr>), Complete 0]
      (step (Signal SIGINT)
        (run [Connect, Request 0 (probe GET ''/api/v1/info''), Complete 0] (boot None None None)))))
     = Some 0"
proof -
  let ?a = "probe GET ''/api/v1/info''"
  let ?b = "(probe GET ''/api/v1/info'')\<lparr>totalHits := 2\<rparr>"
  let ?s0 = "run [Connect, Request 0 ?a, Complete 0] (boot None None None)"
  let ?s1 = "step (Signal SIGINT) ?s0"
  let ?S = "run [Request 0 ?b, Complete 0] ?s1"
  have ga: "get_route ''/api/v1/info'' ?a" "totalHits ?a \<le> max_requests"
    "jsonFault ?a = None" "formFault ?a = None"
    by (simp_all add: probe_def get_route_def path_matches_def lower_def max_requests_def)
  have gb: "get_route ''/api/v1/info'' ?b" "totalHits ?b \<le> max_requests"
    "jsonFault ?b = None" "formFault ?b = None"
    by (simp_all add: probe_def get_route_def path_matches_def lower_def max_requests_def)
  have b0: "listening (boot None None None)" "exitCode (boot None None None) = None"
    "conns (boot None None None) = []"
    by (simp_all add: boot_def)
  note k = kept_alive [OF b0 ga]
  have s1: "?s1 = on_signal SIGINT ?s0" using k(3) by simp
  have d: "\<not> listening ?s1" "exitCode ?s1 = None" "conns ?s1 = [None]" "0 < closeCallbacks ?s1"
    unfolding s1 using on_signal_drains [OF k(3), of SIGINT] k(1) by simp_all
  note w = served_while_draining [OF d gb]
  have one: "replicate (length (conns ?S)) (Disconnect 0) = [Disconnect 0]"
    using w(1) by simp
  from shutdown_drains_connections [OF k(2) k(3), of "[Request 0 ?b, Complete 0]" SIGINT]
  have "\<not> listening ?S \<and> exitCode (run [Disconnect 0] ?S) = Some 0"
    unfolding one by (elim conjE, intro conjI) assumption+
  then show ?thesis .
qed

end
